theory Spec2Isabelle
  imports Complex_Main "HOL-Library.Word"
begin

section \<open>Reference-counted pointers (src/lib/base/refPtr.h)\<close>

text \<open>
  A pointee is named by its address; \<open>None\<close> is the NULL pointer. The template
  parameter's \<open>ref()\<close> and \<open>unref()\<close> are recorded as events in the order in which
  \<open>RefPtr\<close> calls them.
\<close>

type_synonym addr = nat

datatype ref_event = Ref addr | Unref addr

record refPtr =
  ptr :: "addr option"

text \<open>\<open>void ref() { if(_ptr) _ptr->ref(); }\<close> and \<open>void unref() { if(_ptr) _ptr->unref(); }\<close>\<close>

definition RefPtr_ref :: "refPtr \<Rightarrow> ref_event list" where
  "RefPtr_ref r = (case ptr r of None \<Rightarrow> [] | Some a \<Rightarrow> [Ref a])"

definition RefPtr_unref :: "refPtr \<Rightarrow> ref_event list" where
  "RefPtr_unref r = (case ptr r of None \<Rightarrow> [] | Some a \<Rightarrow> [Unref a])"

text \<open>\<open>RefPtr& operator = ( T* ptr )\<close>: the updated pointer and the calls made, in order.\<close>

definition assign_ptr :: "refPtr \<Rightarrow> addr option \<Rightarrow> refPtr \<times> ref_event list" where
  "assign_ptr this p =
     (if ptr this = p then (this, [])
      else
        (let tmp = ptr this;
             this' = this\<lparr>ptr := p\<rparr>;
             ev1 = RefPtr_ref this';
             ev2 = (case tmp of None \<Rightarrow> [] | Some t \<Rightarrow> [Unref t])
         in (this', ev1 @ ev2)))"

text \<open>\<open>RefPtr& operator = ( const RefPtr& rhs )\<close>\<close>

definition assign_RefPtr :: "refPtr \<Rightarrow> refPtr \<Rightarrow> refPtr \<times> ref_event list" where
  "assign_RefPtr this rhs =
     (if ptr this = ptr rhs then (this, [])
      else
        (let tmp = ptr this;
             this' = this\<lparr>ptr := ptr rhs\<rparr>;
             ev1 = RefPtr_ref this';
             ev2 = (case tmp of None \<Rightarrow> [] | Some t \<Rightarrow> [Unref t])
         in (this', ev1 @ ev2)))"

text \<open>\<open>T* get() { return _ptr; }\<close>\<close>

definition get :: "refPtr \<Rightarrow> addr option" where
  "get r = ptr r"

text \<open>
  Modelled from the spec: the pointee class with its reference counter is not in src;
  section 9 of the spec calls the handles refcounted, so \<open>ref()\<close> adds one to the
  pointee's count and \<open>unref()\<close> takes one away.
\<close>

fun apply_ref_event :: "ref_event \<Rightarrow> (addr \<Rightarrow> int) \<Rightarrow> (addr \<Rightarrow> int)" where
  "apply_ref_event (Ref a) cnt = cnt(a := cnt a + 1)"
| "apply_ref_event (Unref a) cnt = cnt(a := cnt a - 1)"

definition apply_ref_events :: "ref_event list \<Rightarrow> (addr \<Rightarrow> int) \<Rightarrow> (addr \<Rightarrow> int)" where
  "apply_ref_events evs cnt = fold apply_ref_event evs cnt"


section \<open>Network nodes (src/lib/net/node.h)\<close>

datatype node_state =
    STATE_STOPPED
  | STATE_LAUNCHED
  | STATE_CONNECTED
  | STATE_LISTENING

text \<open>
  The fields of \<open>Node\<close> that the inline members read or write. \<open>'c\<close> is the class
  \<open>Connection\<close>, which is not in src; \<open>_connection\<close> is a \<open>RefPtr\<close> and may be NULL.
\<close>

record 'c node =
  n_autoLaunch :: bool
  n_state :: node_state
  n_connection :: "'c option"
  n_launchID :: "32 word"

text \<open>Every packet starts with its size in bytes, its datatype and its command.\<close>

record packet =
  p_size :: "64 word"
  p_datatype :: "32 word"
  p_command :: "32 word"

text \<open>
  \<open>bool checkConnection()\<close>. The body of \<open>connect()\<close> is not in src, so it is the
  parameter \<open>connect\<close>, which returns its result and the node it leaves. The third
  component counts the calls of \<open>connect()\<close> that were made.
\<close>

definition checkConnection ::
  "('c node \<Rightarrow> bool \<times> 'c node) \<Rightarrow> 'c node \<Rightarrow> bool \<times> 'c node \<times> nat" where
  "checkConnection connect n =
     (if n_state n = STATE_CONNECTED \<or> n_state n = STATE_LISTENING then (True, n, 0)
      else if n_state n = STATE_STOPPED then (let (r, n') = connect n in (r, n', 1))
      else (False, n, 0))"

text \<open>
  \<open>bool send( const Packet& packet )\<close>. \<open>csend\<close> is \<open>Connection::send( packet )\<close>, the
  number of bytes written as a 64-bit value, compared with the unsigned \<open>packet.size\<close>.
  The result is \<open>None\<close> where \<open>_connection->\<close> dereferences a NULL pointer.
\<close>

definition send ::
  "('c node \<Rightarrow> bool \<times> 'c node) \<Rightarrow> ('c \<Rightarrow> packet \<Rightarrow> 64 word) \<Rightarrow> 'c node \<Rightarrow> packet
     \<Rightarrow> (bool \<times> 'c node) option" where
  "send connect csend n p =
     (case checkConnection connect n of
        (False, n', _) \<Rightarrow> Some (False, n')
      | (True, n', _) \<Rightarrow>
          (case n_connection n' of
             None \<Rightarrow> None
           | Some c \<Rightarrow> Some (csend c p = p_size p, n')))"

text \<open>
  The payload variants \<open>send( packet, string )\<close>, \<open>send( packet, vector )\<close> and
  \<open>send( packet, data, size )\<close> have one body up to the type of the payload \<open>'d\<close>;
  \<open>csend_data\<close> is the matching \<open>Connection::send\<close> overload.
\<close>

definition send_data ::
  "('c node \<Rightarrow> bool \<times> 'c node) \<Rightarrow> ('c \<Rightarrow> packet \<Rightarrow> 'd \<Rightarrow> 64 word) \<Rightarrow> 'c node \<Rightarrow> packet \<Rightarrow> 'd
     \<Rightarrow> (bool \<times> 'c node) option" where
  "send_data connect csend_data n p d =
     (case checkConnection connect n of
        (False, n', _) \<Rightarrow> Some (False, n')
      | (True, n', _) \<Rightarrow>
          (case n_connection n' of
             None \<Rightarrow> None
           | Some c \<Rightarrow> Some (p_size p \<le> csend_data c p d, n')))"


section \<open>Server-side windows (src/server/window.cpp)\<close>

subsection \<open>Collaborators of the window\<close>

text \<open>
  \<open>eq::PixelViewport\<close> and \<open>eq::Viewport\<close> are not in src. Their values are kept as
  records of an origin and an extent; \<open>setViewport\<close> writes the fields \<open>x\<close> and \<open>y\<close> of
  a pixel viewport. What \<open>isValid\<close>, \<open>invalidate\<close> and the operators \<open>/\<close> and \<open>*\<close>
  compute is not in src either, so they are parameters, collected in \<open>viewport_ops\<close>.
\<close>

record pixelViewport =
  pvp_x :: int
  pvp_y :: int
  pvp_w :: int
  pvp_h :: int

record viewport =
  vp_x :: real
  vp_y :: real
  vp_w :: real
  vp_h :: real

record viewport_ops =
  pvp_isValid :: "pixelViewport \<Rightarrow> bool"
  pvp_invalidate :: "pixelViewport \<Rightarrow> pixelViewport"
  vp_isValid :: "viewport \<Rightarrow> bool"
  vp_invalidate :: "viewport \<Rightarrow> viewport"
  pvp_div :: "pixelViewport \<Rightarrow> pixelViewport \<Rightarrow> viewport"
  pvp_mul :: "pixelViewport \<Rightarrow> viewport \<Rightarrow> pixelViewport"

text \<open>The pipe of a window, as far as the window reads it: \<open>getPixelViewport()\<close> and \<open>nWindows()\<close>.\<close>

record pipe =
  pipe_pvp :: pixelViewport
  pipe_nWindows :: nat

datatype channel_state =
    Channel_STATE_STOPPED
  | Channel_STATE_INITIALISING
  | Channel_STATE_RUNNING
  | Channel_STATE_STOPPING

text \<open>
  The server-side channel, as far as the window reads it: \<open>getID()\<close>, \<open>getState()\<close> and
  the \<open>_used\<close> reference count behind \<open>isUsed()\<close>.
\<close>

record channel =
  c_id :: "32 word"
  c_used :: nat
  c_state :: channel_state

text \<open>
  Modelled from the spec: \<open>Channel::isUsed()\<close> is not in src; by section 4.h an entity
  is used while its \<open>_used\<close> refcount is not zero.
\<close>

definition isUsed :: "channel \<Rightarrow> bool" where
  "isUsed c = (c_used c \<noteq> 0)"

text \<open>
  Modelled from the spec: the request handler is not in src. By section 4.f
  \<open>registerRequest\<close> allocates an id, \<open>serveRequest(id, value)\<close> fulfils it and
  \<open>waitRequest(id)\<close> blocks until the request is served and returns exactly the served
  value, once. A registered request maps to \<open>None\<close> until it is served. \<open>waitRequest\<close>
  on a request that is not served never returns, which is the result \<open>None\<close>.
\<close>

record requestHandler =
  rh_nextID :: "32 word"
  rh_requests :: "32 word \<rightharpoonup> 64 word option"

definition registerRequest :: "requestHandler \<Rightarrow> 32 word \<times> requestHandler" where
  "registerRequest rh =
     (rh_nextID rh,
      rh\<lparr>rh_nextID := rh_nextID rh + 1,
         rh_requests := (rh_requests rh)(rh_nextID rh \<mapsto> None)\<rparr>)"

definition serveRequest :: "requestHandler \<Rightarrow> 32 word \<Rightarrow> 64 word \<Rightarrow> requestHandler" where
  "serveRequest rh rid v =
     (case rh_requests rh rid of
        Some None \<Rightarrow> rh\<lparr>rh_requests := (rh_requests rh)(rid \<mapsto> Some v)\<rparr>
      | _ \<Rightarrow> rh)"

definition waitRequest :: "requestHandler \<Rightarrow> 32 word \<Rightarrow> (64 word \<times> requestHandler) option" where
  "waitRequest rh rid =
     (case rh_requests rh rid of
        Some (Some v) \<Rightarrow> Some (v, rh\<lparr>rh_requests := (rh_requests rh)(rid := None)\<rparr>)
      | _ \<Rightarrow> None)"

text \<open>
  A barrier object, shared between windows through its address. \<open>getID()\<close> and
  \<open>getVersion()\<close> read the first two fields; the third is the participant count.
\<close>

record barrier =
  b_id :: "32 word"
  b_version :: "32 word"
  b_height :: nat

text \<open>
  Modelled from the spec: \<open>Barrier::increase()\<close> is not in src; by section 4.e it
  bumps the required participant count.
\<close>

definition increase :: "barrier \<Rightarrow> barrier" where
  "increase b = b\<lparr>b_height := b_height b + 1\<rparr>"

text \<open>
  The server-side node of a window owns the barrier objects. Modelled from the spec:
  \<open>Node::getBarrier()\<close> is not in src; it hands out a barrier that no window holds
  yet, which by section 4.j has no participant before the windows of the group add
  themselves.
\<close>

record server_node =
  sn_barriers :: "addr \<Rightarrow> barrier"
  sn_nextBarrier :: addr

definition getBarrier :: "server_node \<Rightarrow> addr \<times> server_node" where
  "getBarrier nd =
     (sn_nextBarrier nd,
      nd\<lparr>sn_barriers := (sn_barriers nd)
             (sn_nextBarrier nd := (sn_barriers nd (sn_nextBarrier nd))\<lparr>b_height := 0\<rparr>),
         sn_nextBarrier := Suc (sn_nextBarrier nd)\<rparr>)"

subsection \<open>The window\<close>

datatype window_state =
    Window_STATE_STOPPED
  | Window_STATE_INITIALISING
  | Window_STATE_RUNNING
  | Window_STATE_STOPPING

text \<open>
  \<open>_pipe\<close> is \<open>None\<close> when NULL; the swap-barrier vectors hold the addresses of the
  barrier objects; \<open>_pendingRequestID\<close> is \<open>None\<close> when it is the constant
  \<open>EQ_INVALID_ID\<close>, whose value is not in src.
\<close>

record window =
  w_name :: string
  w_used :: nat
  w_pipe :: "pipe option"
  w_pvp :: pixelViewport
  w_vp :: viewport
  w_channels :: "channel list"
  w_masterSwapBarriers :: "addr list"
  w_swapBarriers :: "addr list"
  w_pendingRequestID :: "32 word option"
  w_state :: window_state
  w_requestHandler :: requestHandler

text \<open>The packets a window sends, with the fields the window fills in.\<close>

datatype window_packet =
    WindowInitPacket "32 word" "32 word" pixelViewport viewport string
  | WindowExitPacket "32 word"
  | WindowCreateChannelPacket "32 word"
  | WindowDestroyChannelPacket "32 word"
  | WindowStartFramePacket "32 word" bool
  | WindowEndFramePacket "32 word"
  | WindowFinishPacket
  | WindowBarrierPacket "32 word" "32 word"
  | WindowSwapPacket

text \<open>
  What a window operation does to the world outside the window, in order: a packet
  handed to \<open>_send\<close>, \<open>commit()\<close> on the barrier at an address, \<open>update( frameID )\<close>
  on the channel with an id, and \<open>deregisterObject\<close> of the channel with an id.
\<close>

datatype event =
    Send window_packet
  | BarrierCommit addr
  | ChannelUpdate "32 word" "32 word"
  | DeregisterObject "32 word"

subsection \<open>Viewports\<close>

text \<open>\<open>void eqs::Window::setPixelViewport( const eq::PixelViewport& pvp )\<close>\<close>

definition setPixelViewport :: "viewport_ops \<Rightarrow> window \<Rightarrow> pixelViewport \<Rightarrow> window" where
  "setPixelViewport ops w pvp =
     (if \<not> pvp_isValid ops pvp then w
      else
        (let w1 = w\<lparr>w_pvp := pvp\<rparr>;
             w2 = w1\<lparr>w_vp := vp_invalidate ops (w_vp w1)\<rparr>
         in case w_pipe w2 of
              None \<Rightarrow> w2
            | Some p \<Rightarrow>
                (let pipePVP = pipe_pvp p
                 in if pvp_isValid ops pipePVP
                    then w2\<lparr>w_vp := pvp_div ops pvp pipePVP\<rparr>
                    else w2)))"

text \<open>\<open>void eqs::Window::setViewport( const eq::Viewport& vp )\<close>\<close>

definition setViewport :: "viewport_ops \<Rightarrow> window \<Rightarrow> viewport \<Rightarrow> window" where
  "setViewport ops w vp =
     (if \<not> vp_isValid ops vp then w
      else
        (let w1 = w\<lparr>w_vp := vp\<rparr>;
             w2 = w1\<lparr>w_pvp := pvp_invalidate ops (w_pvp w1)\<rparr>
         in case w_pipe w2 of
              None \<Rightarrow> w2
            | Some p \<Rightarrow>
                (let pipePVP = pipe_pvp p
                 in if pvp_isValid ops pipePVP
                    then
                      (let pipePVP1 = pipePVP\<lparr>pvp_x := 0\<rparr>;
                           pipePVP2 = pipePVP1\<lparr>pvp_y := 0\<rparr>
                       in w2\<lparr>w_pvp := pvp_mul ops pipePVP2 vp\<rparr>)
                    else w2)))"

subsection \<open>Swap barriers\<close>

text \<open>\<open>void Window::addSwapBarrier( eqNet::Barrier* barrier )\<close>\<close>

definition addSwapBarrier ::
  "(addr \<Rightarrow> barrier) \<Rightarrow> window \<Rightarrow> addr \<Rightarrow> (addr \<Rightarrow> barrier) \<times> window" where
  "addSwapBarrier bs w b =
     (bs(b := increase (bs b)), w\<lparr>w_swapBarriers := w_swapBarriers w @ [b]\<rparr>)"

text \<open>\<open>eqNet::Barrier* Window::newSwapBarrier()\<close>: the barrier, the node and the window.\<close>

definition newSwapBarrier :: "server_node \<Rightarrow> window \<Rightarrow> addr \<times> server_node \<times> window" where
  "newSwapBarrier nd w =
     (let (b, nd1) = getBarrier nd;
          w1 = w\<lparr>w_masterSwapBarriers := w_masterSwapBarriers w @ [b]\<rparr>;
          (bs2, w2) = addSwapBarrier (sn_barriers nd1) w1 b
      in (b, nd1\<lparr>sn_barriers := bs2\<rparr>, w2))"

text \<open>
  Modelled from the spec: the swap-barrier planner is not in src; by section 4.j the
  windows of a swap group share one barrier instance, which the first window of the
  group creates and to which every other window of the group adds itself.
\<close>

fun joinSwapBarrier ::
  "(addr \<Rightarrow> barrier) \<Rightarrow> addr \<Rightarrow> window list \<Rightarrow> (addr \<Rightarrow> barrier) \<times> window list" where
  "joinSwapBarrier bs b [] = (bs, [])"
| "joinSwapBarrier bs b (w # ws) =
     (let (bs1, w1) = addSwapBarrier bs w b;
          (bs2, ws2) = joinSwapBarrier bs1 b ws
      in (bs2, w1 # ws2))"

definition swapGroup ::
  "server_node \<Rightarrow> window \<Rightarrow> window list \<Rightarrow> addr \<times> server_node \<times> window list" where
  "swapGroup nd w ws =
     (let (b, nd1, w1) = newSwapBarrier nd w;
          (bs2, ws2) = joinSwapBarrier (sn_barriers nd1) b ws
      in (b, nd1\<lparr>sn_barriers := bs2\<rparr>, w1 # ws2))"


subsection \<open>Init and exit\<close>

text \<open>
  \<open>void Window::_sendInit( const uint32_t initID )\<close>. \<open>EQASSERT\<close> compiles to nothing
  in a release build and is left out.
\<close>

definition sendInit :: "window \<Rightarrow> 32 word \<Rightarrow> window \<times> event list" where
  "sendInit w initID =
     (let (rid, rh) = registerRequest (w_requestHandler w);
          w1 = w\<lparr>w_requestHandler := rh, w_pendingRequestID := Some rid\<rparr>
      in (w1, [Send (WindowInitPacket rid initID (w_pvp w1) (w_vp w1) (w_name w1))]))"

text \<open>\<open>void Window::_sendExit()\<close>\<close>

definition sendExit :: "window \<Rightarrow> window \<times> event list" where
  "sendExit w =
     (let (rid, rh) = registerRequest (w_requestHandler w);
          w1 = w\<lparr>w_requestHandler := rh, w_pendingRequestID := Some rid\<rparr>
      in (w1, [Send (WindowExitPacket rid)]))"

text \<open>
  The loop of \<open>Window::syncInit\<close> over \<open>_channels\<close>. \<open>Channel::syncInit\<close> is not in
  src: it is the parameter \<open>csyncInit\<close>, which gives the call's result and the channel
  it leaves, or \<open>None\<close> when the call does not return.
\<close>

fun syncInit_channels ::
  "(channel \<Rightarrow> (bool \<times> channel) option) \<Rightarrow> channel list \<Rightarrow> bool
     \<Rightarrow> (bool \<times> channel list) option" where
  "syncInit_channels csyncInit [] success = Some (success, [])"
| "syncInit_channels csyncInit (c # cs) success =
     (if isUsed c then
        (case csyncInit c of
           None \<Rightarrow> None
         | Some (r, c1) \<Rightarrow>
             (case syncInit_channels csyncInit cs (if \<not> r then False else success) of
                None \<Rightarrow> None
              | Some (s, cs1) \<Rightarrow> Some (s, c1 # cs1)))
      else
        (case syncInit_channels csyncInit cs success of
           None \<Rightarrow> None
         | Some (s, cs1) \<Rightarrow> Some (s, c # cs1)))"

text \<open>
  \<open>bool Window::syncInit()\<close>: the result and the window it leaves, or \<open>None\<close> when the
  call does not return. The served value is a \<open>void*\<close>, which the cast to \<open>bool\<close>
  turns into true when it is not zero.
\<close>

definition syncInit ::
  "(channel \<Rightarrow> (bool \<times> channel) option) \<Rightarrow> window \<Rightarrow> (bool \<times> window) option" where
  "syncInit csyncInit w =
     (case syncInit_channels csyncInit (w_channels w) True of
        None \<Rightarrow> None
      | Some (success, cs1) \<Rightarrow>
          (case w_pendingRequestID w of
             None \<Rightarrow> None
           | Some rid \<Rightarrow>
               (case waitRequest (w_requestHandler w) rid of
                  None \<Rightarrow> None
                | Some (v, rh) \<Rightarrow>
                    (let success1 = (if \<not> (v \<noteq> 0) then False else success);
                         w1 = w\<lparr>w_channels := cs1, w_requestHandler := rh,
                                w_pendingRequestID := None\<rparr>
                     in if success1
                        then Some (success1, w1\<lparr>w_state := Window_STATE_RUNNING\<rparr>)
                        else Some (success1, w1)))))"

text \<open>
  The loop of \<open>Window::syncExit\<close> over \<open>_channels\<close>. \<open>Channel::syncExit\<close> and
  \<open>Config::deregisterObject\<close> are not in src: they are the parameters \<open>csyncExit\<close>
  and \<open>deregisterObject\<close>.
\<close>

fun syncExit_channels ::
  "(channel \<Rightarrow> (bool \<times> channel) option) \<Rightarrow> (channel \<Rightarrow> channel) \<Rightarrow> channel list \<Rightarrow> bool
     \<Rightarrow> (bool \<times> channel list \<times> event list) option" where
  "syncExit_channels csyncExit deregisterObject [] success = Some (success, [], [])"
| "syncExit_channels csyncExit deregisterObject (c # cs) success =
     (if c_state c \<noteq> Channel_STATE_STOPPING then
        (case syncExit_channels csyncExit deregisterObject cs success of
           None \<Rightarrow> None
         | Some (s, cs1, evs) \<Rightarrow> Some (s, c # cs1, evs))
      else
        (case csyncExit c of
           None \<Rightarrow> None
         | Some (r, c1) \<Rightarrow>
             (case syncExit_channels csyncExit deregisterObject cs
                     (if \<not> r then False else success) of
                None \<Rightarrow> None
              | Some (s, cs1, evs) \<Rightarrow>
                  Some (s, deregisterObject c1 # cs1,
                        [Send (WindowDestroyChannelPacket (c_id c1)),
                         DeregisterObject (c_id c1)] @ evs))))"

text \<open>\<open>bool Window::syncExit()\<close>\<close>

definition syncExit ::
  "(channel \<Rightarrow> (bool \<times> channel) option) \<Rightarrow> (channel \<Rightarrow> channel) \<Rightarrow> window
     \<Rightarrow> (bool \<times> window \<times> event list) option" where
  "syncExit csyncExit deregisterObject w =
     (case w_pendingRequestID w of
        None \<Rightarrow> None
      | Some rid \<Rightarrow>
          (case waitRequest (w_requestHandler w) rid of
             None \<Rightarrow> None
           | Some (v, rh) \<Rightarrow>
               (case syncExit_channels csyncExit deregisterObject (w_channels w) (v \<noteq> 0) of
                  None \<Rightarrow> None
                | Some (success, cs1, evs) \<Rightarrow>
                    Some (success,
                          w\<lparr>w_channels := cs1, w_requestHandler := rh,
                            w_pendingRequestID := None, w_state := Window_STATE_STOPPED\<rparr>,
                          evs))))"

text \<open>
  \<open>Window::_cmdInitReply\<close> and \<open>Window::_cmdExitReply\<close>, run when the reply packet
  arrives: the first is given the packet's \<open>pvp\<close>, \<open>requestID\<close> and \<open>result\<close>, the
  second the packet's \<open>requestID\<close>.
\<close>

definition cmdInitReply ::
  "viewport_ops \<Rightarrow> window \<Rightarrow> pixelViewport \<Rightarrow> 32 word \<Rightarrow> 64 word \<Rightarrow> window" where
  "cmdInitReply ops w pvp rid res =
     (let w1 = (if pvp_isValid ops pvp then setPixelViewport ops w pvp else w)
      in w1\<lparr>w_requestHandler := serveRequest (w_requestHandler w1) rid res\<rparr>)"

definition cmdExitReply :: "window \<Rightarrow> 32 word \<Rightarrow> window" where
  "cmdExitReply w rid = w\<lparr>w_requestHandler := serveRequest (w_requestHandler w) rid 1\<rparr>"

subsection \<open>Frame update\<close>

text \<open>
  The loop of \<open>Window::update\<close> over the channels. \<open>Channel::update\<close> is not in src: it
  is the parameter \<open>cupdate\<close>, and the call is recorded as an event.
\<close>

fun update_channels ::
  "(32 word \<Rightarrow> channel \<Rightarrow> channel) \<Rightarrow> 32 word \<Rightarrow> channel list \<Rightarrow> channel list \<times> event list" where
  "update_channels cupdate frameID [] = ([], [])"
| "update_channels cupdate frameID (c # cs) =
     (let (cs1, evs) = update_channels cupdate frameID cs
      in if isUsed c
         then (cupdate frameID c # cs1, ChannelUpdate (c_id c) frameID # evs)
         else (c # cs1, evs))"

text \<open>
  \<open>void Window::_updateSwap()\<close>. \<open>Barrier::commit\<close> is not in src: it is the
  parameter \<open>commit\<close>. The barrier packets read id and version after the commits.
\<close>

definition commitBarriers ::
  "(barrier \<Rightarrow> barrier) \<Rightarrow> addr list \<Rightarrow> (addr \<Rightarrow> barrier) \<Rightarrow> (addr \<Rightarrow> barrier)" where
  "commitBarriers commit as bs = fold (\<lambda>a bs'. bs'(a := commit (bs' a))) as bs"

definition updateSwap ::
  "(barrier \<Rightarrow> barrier) \<Rightarrow> (addr \<Rightarrow> barrier) \<Rightarrow> window \<Rightarrow> (addr \<Rightarrow> barrier) \<times> event list" where
  "updateSwap commit bs w =
     (let bs1 = commitBarriers commit (w_masterSwapBarriers w) bs;
          ev1 = map BarrierCommit (w_masterSwapBarriers w);
          ev2 = (if w_swapBarriers w \<noteq> [] then [Send WindowFinishPacket] else []);
          ev3 = map (\<lambda>a. Send (WindowBarrierPacket (b_id (bs1 a)) (b_version (bs1 a))))
                    (w_swapBarriers w)
      in (bs1, ev1 @ ev2 @ ev3 @ [Send WindowSwapPacket]))"

text \<open>
  \<open>void Window::update( const uint32_t frameID )\<close>. \<open>_pipe->nWindows()\<close> dereferences
  the pipe; the result is \<open>None\<close> when \<open>_pipe\<close> is NULL.
\<close>

definition update ::
  "(barrier \<Rightarrow> barrier) \<Rightarrow> (32 word \<Rightarrow> channel \<Rightarrow> channel) \<Rightarrow> (addr \<Rightarrow> barrier) \<Rightarrow> window
     \<Rightarrow> 32 word \<Rightarrow> ((addr \<Rightarrow> barrier) \<times> window \<times> event list) option" where
  "update commit cupdate bs w frameID =
     (case w_pipe w of
        None \<Rightarrow> None
      | Some p \<Rightarrow>
          (let ev0 = [Send (WindowStartFramePacket frameID (pipe_nWindows p > 1))];
               (cs1, ev1) = update_channels cupdate frameID (w_channels w);
               (bs1, ev2) = updateSwap commit bs w;
               ev3 = [Send (WindowEndFramePacket frameID)]
           in Some (bs1, w\<lparr>w_channels := cs1\<rparr>, ev0 @ ev1 @ ev2 @ ev3)))"

text \<open>The packets sent and the barriers committed in a sequence of events, in order.\<close>

fun sent :: "event list \<Rightarrow> window_packet list" where
  "sent [] = []"
| "sent (Send p # evs) = p # sent evs"
| "sent (_ # evs) = sent evs"

fun committed :: "event list \<Rightarrow> addr list" where
  "committed [] = []"
| "committed (BarrierCommit a # evs) = a # committed evs"
| "committed (_ # evs) = committed evs"

fun isBarrierPacket :: "window_packet \<Rightarrow> bool" where
  "isBarrierPacket (WindowBarrierPacket _ _) = True"
| "isBarrierPacket _ = False"


subsection \<open>The request a window waits for\<close>

text \<open>
  The pending request of the window has been served with the value \<open>v\<close>: the reply
  has arrived and \<open>serveRequest\<close> has stored \<open>v\<close> under \<open>_pendingRequestID\<close>.
\<close>

definition servedWith :: "window \<Rightarrow> 64 word \<Rightarrow> bool" where
  "servedWith w v \<longleftrightarrow>
     (case w_pendingRequestID w of
        None \<Rightarrow> False
      | Some rid \<Rightarrow> rh_requests (w_requestHandler w) rid = Some (Some v))"

subsection \<open>A concrete configuration\<close>

text \<open>
  One choice of the viewport operations and one window with two channels on a pipe,
  on which the definitions above can be run.
\<close>

definition example_ops :: viewport_ops where
  "example_ops =
     \<lparr>pvp_isValid = (\<lambda>p. 0 \<le> pvp_w p \<and> 0 \<le> pvp_h p),
      pvp_invalidate = (\<lambda>p. \<lparr>pvp_x = 0, pvp_y = 0, pvp_w = -1, pvp_h = -1\<rparr>),
      vp_isValid = (\<lambda>v. 0 \<le> vp_w v \<and> 0 \<le> vp_h v),
      vp_invalidate = (\<lambda>v. \<lparr>vp_x = 0, vp_y = 0, vp_w = -1, vp_h = -1\<rparr>),
      pvp_div = (\<lambda>a b.
        \<lparr>vp_x = real_of_int (pvp_x a - pvp_x b) / real_of_int (pvp_w b),
         vp_y = real_of_int (pvp_y a - pvp_y b) / real_of_int (pvp_h b),
         vp_w = real_of_int (pvp_w a) / real_of_int (pvp_w b),
         vp_h = real_of_int (pvp_h a) / real_of_int (pvp_h b)\<rparr>),
      pvp_mul = (\<lambda>a v.
        \<lparr>pvp_x = pvp_x a + \<lfloor>vp_x v * real_of_int (pvp_w a)\<rfloor>,
         pvp_y = pvp_y a + \<lfloor>vp_y v * real_of_int (pvp_h a)\<rfloor>,
         pvp_w = \<lfloor>vp_w v * real_of_int (pvp_w a)\<rfloor>,
         pvp_h = \<lfloor>vp_h v * real_of_int (pvp_h a)\<rfloor>\<rparr>)\<rparr>"

definition example_window :: window where
  "example_window =
     \<lparr>w_name = ''window'', w_used = 1,
      w_pipe = Some \<lparr>pipe_pvp = \<lparr>pvp_x = 10, pvp_y = 20, pvp_w = 1000, pvp_h = 500\<rparr>,
                     pipe_nWindows = 2\<rparr>,
      w_pvp = \<lparr>pvp_x = 0, pvp_y = 0, pvp_w = -1, pvp_h = -1\<rparr>,
      w_vp = \<lparr>vp_x = 0, vp_y = 0, vp_w = 1, vp_h = 1\<rparr>,
      w_channels = [\<lparr>c_id = 1, c_used = 1, c_state = Channel_STATE_STOPPED\<rparr>,
                    \<lparr>c_id = 2, c_used = 0, c_state = Channel_STATE_STOPPED\<rparr>],
      w_masterSwapBarriers = [], w_swapBarriers = [],
      w_pendingRequestID = None, w_state = Window_STATE_STOPPED,
      w_requestHandler = \<lparr>rh_nextID = 0, rh_requests = Map.empty\<rparr>\<rparr>"


text \<open>
  The example window after \<open>_sendInit\<close> and the arrival of a successful init reply,
  and a stopping window after \<open>_sendExit\<close> and the arrival of the exit reply.
\<close>

definition example_initialising :: window where
  "example_initialising =
     cmdInitReply example_ops (fst (sendInit example_window 7))
       \<lparr>pvp_x = 0, pvp_y = 0, pvp_w = 640, pvp_h = 480\<rparr> 0 1"

definition example_stopping :: window where
  "example_stopping =
     cmdExitReply
       (fst (sendExit (example_window
          \<lparr>w_channels := [\<lparr>c_id = 1, c_used = 1, c_state = Channel_STATE_STOPPING\<rparr>,
                          \<lparr>c_id = 2, c_used = 0, c_state = Channel_STATE_STOPPED\<rparr>],
           w_state := Window_STATE_STOPPING\<rparr>))) 0"

text \<open>
  The example window in a swap group: it is master of the barrier at address 0 and
  enters the barriers at addresses 0 and 1. Committing a barrier gives it a new version.
\<close>

definition example_swap_window :: window where
  "example_swap_window = example_window\<lparr>w_masterSwapBarriers := [0], w_swapBarriers := [0, 1]\<rparr>"

definition example_barriers :: "addr \<Rightarrow> barrier" where
  "example_barriers = (\<lambda>a. \<lparr>b_id = 5, b_version = 0, b_height = 2\<rparr>)"

definition example_commit :: "barrier \<Rightarrow> barrier" where
  "example_commit b = b\<lparr>b_version := b_version b + 1\<rparr>"


section \<open>The eqPly channel (src/examples/eqPly/channel.cpp)\<close>

subsection \<open>Clearing the frame\<close>

text \<open>
  \<open>vmml::Vector3ub\<close>, the colour \<open>getUniqueColor()\<close> returns, and the arguments of
  \<open>glClearColor\<close>. The colour components are floats that are only set from constants
  or from a byte divided by 255; they are kept as real numbers.
\<close>

record vector3ub =
  col_r :: "8 word"
  col_g :: "8 word"
  col_b :: "8 word"

record clearColor =
  red :: real
  green :: real
  blue :: real
  alpha :: real

text \<open>
  What \<open>frameClear\<close> reads: whether the build defines \<open>NDEBUG\<close>, the id of the view
  \<open>getView()\<close> returns (\<open>None\<close> when it is NULL), the frame data's current view id,
  the value of \<open>getenv( "EQ_TAINT_CHANNELS" )\<close> (\<open>None\<close> when the variable is not
  set) and the channel's unique colour.
\<close>

record clear_context =
  cc_NDEBUG :: bool
  cc_view :: "32 word option"
  cc_currentViewID :: "32 word"
  cc_EQ_TAINT_CHANNELS :: "string option"
  cc_uniqueColor :: vector3ub

text \<open>\<open>void Channel::frameClear( const uint32_t frameID )\<close>: the colour given to \<open>glClearColor\<close>.\<close>

definition frameClear :: "clear_context \<Rightarrow> clearColor" where
  "frameClear cc =
     (if (case cc_view cc of None \<Rightarrow> False | Some vid \<Rightarrow> cc_currentViewID cc = vid)
      then \<lparr>red = 4/10, green = 4/10, blue = 4/10, alpha = 1\<rparr>
      else if \<not> cc_NDEBUG cc \<and> cc_EQ_TAINT_CHANNELS cc \<noteq> None
      then (let color = cc_uniqueColor cc
            in \<lparr>red = real (unat (col_r color)) / 255,
                green = real (unat (col_g color)) / 255,
                blue = real (unat (col_b color)) / 255, alpha = 1\<rparr>)
      else \<lparr>red = 0, green = 0, blue = 0, alpha = 1\<rparr>)"

subsection \<open>Drawing the model\<close>

datatype visibility = VISIBILITY_NONE | VISIBILITY_PARTIAL | VISIBILITY_FULL

text \<open>
  A node of the model's tree (\<open>VertexBufferBase\<close>): \<open>getRange()[0]\<close>, \<open>getRange()[1]\<close>,
  the bounding sphere and the children, \<open>None\<close> when NULL. The range values are floats
  that \<open>_drawModel\<close> only compares; they are kept as real numbers.
\<close>

datatype 's vertexBufferBase =
  VertexBufferBase (getRange0: real) (getRange1: real) (getBoundingSphere: 's)
    (getLeft: "'s vertexBufferBase option") (getRight: "'s vertexBufferBase option")

record range =
  range_start :: real
  range_end :: real

text \<open>
  Modelled from the spec: the constant \<open>eq::Range::ALL\<close> is not in src; by section 8
  the range that renders everything is \<open>[0,1)\<close>.
\<close>

definition Range_ALL :: range where
  "Range_ALL = \<lparr>range_start = 0, range_end = 1\<rparr>"

text \<open>The "completely out of range" check at the head of the loop.\<close>

definition outOfRange :: "range \<Rightarrow> 's vertexBufferBase \<Rightarrow> bool" where
  "outOfRange rng treeNode \<longleftrightarrow>
     getRange0 treeNode \<ge> range_end rng \<or> getRange1 treeNode < range_start rng"

text \<open>The children pushed on the candidates: left first, so the right one is on top.\<close>

definition pushChildren ::
  "'s vertexBufferBase \<Rightarrow> 's vertexBufferBase list \<Rightarrow> 's vertexBufferBase list" where
  "pushChildren treeNode candidates =
     (case getRight treeNode of None \<Rightarrow> [] | Some r \<Rightarrow> [r])
     @ (case getLeft treeNode of None \<Rightarrow> [] | Some l \<Rightarrow> [l])
     @ candidates"

fun treeSize :: "'s vertexBufferBase \<Rightarrow> nat" where
  "treeSize (VertexBufferBase lo hi s l r) =
     Suc ((case l of None \<Rightarrow> 0 | Some x \<Rightarrow> treeSize x)
          + (case r of None \<Rightarrow> 0 | Some x \<Rightarrow> treeSize x))"

lemma treeSize_pushChildren:
  "sum_list (map treeSize (pushChildren treeNode candidates))
     < treeSize treeNode + sum_list (map treeSize candidates)"
  by (cases treeNode) (simp add: pushChildren_def split: option.split)

lemma treeSize_positive: "0 < treeSize treeNode"
  by (cases treeNode) simp

text \<open>
  The \<open>while\<close> loop of \<open>Channel::_drawModel\<close>. The candidates are a stack whose top,
  \<open>candidates.back()\<close>, is the head of the list; \<open>testSphere\<close> is the frustum culler's
  test; the result lists the nodes on which \<open>render\<close> is called, in order.
\<close>

function drawLoop ::
  "('s \<Rightarrow> visibility) \<Rightarrow> range \<Rightarrow> 's vertexBufferBase list \<Rightarrow> 's vertexBufferBase list" where
  "drawLoop testSphere rng [] = []"
| "drawLoop testSphere rng (treeNode # candidates) =
     (if outOfRange rng treeNode then drawLoop testSphere rng candidates
      else
        (case testSphere (getBoundingSphere treeNode) of
           VISIBILITY_FULL \<Rightarrow>
             if rng = Range_ALL
                \<or> (getRange0 treeNode \<ge> range_start rng \<and> getRange1 treeNode < range_end rng)
             then treeNode # drawLoop testSphere rng candidates
             else if getLeft treeNode = None \<and> getRight treeNode = None
             then (if getRange0 treeNode \<ge> range_start rng
                   then treeNode # drawLoop testSphere rng candidates
                   else drawLoop testSphere rng candidates)
             else drawLoop testSphere rng (pushChildren treeNode candidates)
         | VISIBILITY_PARTIAL \<Rightarrow>
             if getLeft treeNode = None \<and> getRight treeNode = None
             then (if getRange0 treeNode \<ge> range_start rng
                   then treeNode # drawLoop testSphere rng candidates
                   else drawLoop testSphere rng candidates)
             else drawLoop testSphere rng (pushChildren treeNode candidates)
         | VISIBILITY_NONE \<Rightarrow> drawLoop testSphere rng candidates))"
  by pat_completeness auto
termination
proof (relation "measure (\<lambda>(testSphere, rng, candidates). sum_list (map treeSize candidates))")
  show "wf (measure (\<lambda>(testSphere, rng, candidates). sum_list (map treeSize candidates)))"
    by simp
qed (simp_all add: treeSize_pushChildren treeSize_positive)

definition drawModel ::
  "('s \<Rightarrow> visibility) \<Rightarrow> range \<Rightarrow> 's vertexBufferBase \<Rightarrow> 's vertexBufferBase list" where
  "drawModel testSphere rng model = drawLoop testSphere rng [model]"


text \<open>All nodes of a tree, the root first.\<close>

fun treeNodes :: "'s vertexBufferBase \<Rightarrow> 's vertexBufferBase list" where
  "treeNodes (VertexBufferBase lo hi s l r) =
     VertexBufferBase lo hi s l r
     # (case l of None \<Rightarrow> [] | Some x \<Rightarrow> treeNodes x)
     @ (case r of None \<Rightarrow> [] | Some x \<Rightarrow> treeNodes x)"

text \<open>
  The range of a node is a part of the unit interval that starts before 1 and does not
  end before it starts.
\<close>

definition unitRange :: "'s vertexBufferBase \<Rightarrow> bool" where
  "unitRange n \<longleftrightarrow> 0 \<le> getRange0 n \<and> getRange0 n < 1 \<and> getRange0 n \<le> getRange1 n"

text \<open>
  Rendering everything the culler lets through: a fully visible node is rendered whole,
  a partly visible leaf is rendered, the children of a partly visible inner node are
  visited, the right one first, and no range is looked at.
\<close>

fun drawVisible :: "('s \<Rightarrow> visibility) \<Rightarrow> 's vertexBufferBase \<Rightarrow> 's vertexBufferBase list" where
  "drawVisible testSphere (VertexBufferBase lo hi s l r) =
     (case testSphere s of
        VISIBILITY_NONE \<Rightarrow> []
      | VISIBILITY_FULL \<Rightarrow> [VertexBufferBase lo hi s l r]
      | VISIBILITY_PARTIAL \<Rightarrow>
          if l = None \<and> r = None then [VertexBufferBase lo hi s l r]
          else (case r of None \<Rightarrow> [] | Some x \<Rightarrow> drawVisible testSphere x)
             @ (case l of None \<Rightarrow> [] | Some x \<Rightarrow> drawVisible testSphere x))"

subsection \<open>A concrete model and a concrete clear\<close>

text \<open>
  A tree of a root with two leaves that halve its range, with a culler that sees the
  root partly and the leaves fully; and a debug build channel that is not the
  destination of the current view, with the taint variable set.
\<close>

definition example_model :: "nat vertexBufferBase" where
  "example_model =
     VertexBufferBase 0 1 0
       (Some (VertexBufferBase 0 (1/2) 1 None None))
       (Some (VertexBufferBase (1/2) 1 2 None None))"

definition example_culler :: "nat \<Rightarrow> visibility" where
  "example_culler s = (if s = 0 then VISIBILITY_PARTIAL else VISIBILITY_FULL)"

text \<open>A leaf whose range, from 1 to 2, lies beyond the unit interval.\<close>

definition example_outside_leaf :: "nat vertexBufferBase" where
  "example_outside_leaf = VertexBufferBase 1 2 1 None None"

definition example_clear :: clear_context where
  "example_clear =
     \<lparr>cc_NDEBUG = False, cc_view = Some 3, cc_currentViewID = 4,
      cc_EQ_TAINT_CHANNELS = Some ''1'',
      cc_uniqueColor = \<lparr>col_r = 255, col_g = 0, col_b = 51\<rparr>\<rparr>"


section \<open>Properties of RefPtr assignment\<close>

text \<open>
  C10. Assigning a RefPtr the pointer it already holds, or assigning it to itself, makes
  no call of ref() or unref(), so every reference count stays as it was. Otherwise the
  new pointee (when not NULL) is referenced first and the previous pointee (when not
  NULL) is unreferenced after it, and nothing else is called. After any assignment get()
  returns the assigned pointer, and repeating the assignment changes nothing more. This
  holds for both assignment operators.
\<close>

theorem RefPtr_assign_neutral_and_reference_safe:
  "assign_ptr (r\<lparr>ptr := p\<rparr>) p = (r\<lparr>ptr := p\<rparr>, [])
   \<and> assign_RefPtr r r = (r, [])
   \<and> apply_ref_events (snd (assign_ptr (r\<lparr>ptr := p\<rparr>) p)) cnt = cnt
   \<and> apply_ref_events (snd (assign_RefPtr r r)) cnt = cnt
   \<and> snd (assign_ptr r q) =
       (if ptr r = q then []
        else (case q of None \<Rightarrow> [] | Some a \<Rightarrow> [Ref a])
           @ (case ptr r of None \<Rightarrow> [] | Some b \<Rightarrow> [Unref b]))
   \<and> snd (assign_RefPtr r rhs) = snd (assign_ptr r (ptr rhs))
   \<and> get (fst (assign_ptr r q)) = q
   \<and> get (fst (assign_RefPtr r rhs)) = get rhs
   \<and> assign_ptr (fst (assign_ptr r q)) q = (fst (assign_ptr r q), [])
   \<and> assign_RefPtr (fst (assign_RefPtr r rhs)) rhs = (fst (assign_RefPtr r rhs), [])"
  by (simp add: assign_ptr_def assign_RefPtr_def RefPtr_ref_def get_def
        apply_ref_events_def Let_def split: option.splits)

section \<open>Properties of the network node\<close>

text \<open>
  C8. checkConnection returns true at once, leaving the node as it is and making no call
  of connect(), when the state is STATE_CONNECTED or STATE_LISTENING. In STATE_STOPPED
  it makes exactly one call of connect() and returns what that call returns. In
  STATE_LAUNCHED it returns false, leaving the node as it is and making no call of
  connect(). So a call of connect() is made only from STATE_STOPPED.
\<close>

theorem checkConnection_by_state:
  "(n_state n = STATE_CONNECTED \<or> n_state n = STATE_LISTENING
      \<longrightarrow> checkConnection connect n = (True, n, 0))
   \<and> (n_state n = STATE_STOPPED
      \<longrightarrow> checkConnection connect n = (fst (connect n), snd (connect n), 1))
   \<and> (n_state n = STATE_LAUNCHED \<longrightarrow> checkConnection connect n = (False, n, 0))
   \<and> (snd (snd (checkConnection connect n)) \<noteq> 0 \<longrightarrow> n_state n = STATE_STOPPED)"
  by (cases "n_state n") (simp_all add: checkConnection_def split_beta)

theorem checkConnection_by_state_witness:
  "checkConnection (\<lambda>n. (True, n\<lparr>n_state := STATE_CONNECTED\<rparr>))
      \<lparr>n_autoLaunch = False, n_state = STATE_CONNECTED, n_connection = Some (7::nat),
       n_launchID = 0\<rparr>
     = (True, \<lparr>n_autoLaunch = False, n_state = STATE_CONNECTED, n_connection = Some 7,
               n_launchID = 0\<rparr>, 0)
   \<and> checkConnection (\<lambda>n. (True, n\<lparr>n_state := STATE_CONNECTED\<rparr>))
      \<lparr>n_autoLaunch = False, n_state = STATE_LISTENING, n_connection = Some (7::nat),
       n_launchID = 0\<rparr>
     = (True, \<lparr>n_autoLaunch = False, n_state = STATE_LISTENING, n_connection = Some 7,
               n_launchID = 0\<rparr>, 0)
   \<and> checkConnection (\<lambda>n. (True, n\<lparr>n_state := STATE_CONNECTED\<rparr>))
      \<lparr>n_autoLaunch = False, n_state = STATE_STOPPED, n_connection = Some (7::nat),
       n_launchID = 0\<rparr>
     = (True, \<lparr>n_autoLaunch = False, n_state = STATE_CONNECTED, n_connection = Some 7,
               n_launchID = 0\<rparr>, 1)
   \<and> checkConnection (\<lambda>n. (True, n\<lparr>n_state := STATE_CONNECTED\<rparr>))
      \<lparr>n_autoLaunch = False, n_state = STATE_LAUNCHED, n_connection = Some (7::nat),
       n_launchID = 0\<rparr>
     = (False, \<lparr>n_autoLaunch = False, n_state = STATE_LAUNCHED, n_connection = Some 7,
                n_launchID = 0\<rparr>, 0)"
  using
    checkConnection_by_state [of
      "\<lparr>n_autoLaunch = False, n_state = STATE_CONNECTED, n_connection = Some (7::nat),
        n_launchID = 0\<rparr>"
      "\<lambda>n. (True, n\<lparr>n_state := STATE_CONNECTED\<rparr>)"]
    checkConnection_by_state [of
      "\<lparr>n_autoLaunch = False, n_state = STATE_LISTENING, n_connection = Some (7::nat),
        n_launchID = 0\<rparr>"
      "\<lambda>n. (True, n\<lparr>n_state := STATE_CONNECTED\<rparr>)"]
    checkConnection_by_state [of
      "\<lparr>n_autoLaunch = False, n_state = STATE_STOPPED, n_connection = Some (7::nat),
        n_launchID = 0\<rparr>"
      "\<lambda>n. (True, n\<lparr>n_state := STATE_CONNECTED\<rparr>)"]
    checkConnection_by_state [of
      "\<lparr>n_autoLaunch = False, n_state = STATE_LAUNCHED, n_connection = Some (7::nat),
        n_launchID = 0\<rparr>"
      "\<lambda>n. (True, n\<lparr>n_state := STATE_CONNECTED\<rparr>)"]
  by simp

text \<open>
  C4. send( packet ) returns true exactly when checkConnection returned true and the
  connection's send returned exactly packet.size. Each payload variant returns true
  exactly when checkConnection returned true and the connection's send returned at
  least packet.size.
\<close>

theorem send_returns_true_iff:
  "((\<exists>n'. send connect csend n p = Some (True, n'))
      \<longleftrightarrow> fst (checkConnection connect n)
          \<and> (\<exists>c. n_connection (fst (snd (checkConnection connect n))) = Some c
                 \<and> unat (csend c p) = unat (p_size p)))
   \<and> ((\<exists>n'. send_data connect csend_data n p d = Some (True, n'))
      \<longleftrightarrow> fst (checkConnection connect n)
          \<and> (\<exists>c. n_connection (fst (snd (checkConnection connect n))) = Some c
                 \<and> unat (p_size p) \<le> unat (csend_data c p d)))"
proof -
  obtain r n1 k where cc: "checkConnection connect n = (r, n1, k)"
    by (cases "checkConnection connect n") auto
  show ?thesis
    by (cases r; cases "n_connection n1")
       (simp_all add: send_def send_data_def cc word_le_nat_alt word_unat_eq_iff)
qed

section \<open>Properties of the server-side window\<close>

subsection \<open>Viewports\<close>

text \<open>
  C9. setPixelViewport and setViewport called with an invalid argument leave the whole
  window, and so both of its viewports, unchanged. Called with a valid argument they
  store the argument and change the other viewport only: it is the value computed from
  the pipe's pixel viewport when the window has a pipe whose pixel viewport is valid,
  and the invalidated old value otherwise. No other field of the window changes.
\<close>

theorem Window_set_viewports:
  "(\<not> pvp_isValid ops pvp \<longrightarrow> setPixelViewport ops w pvp = w)
   \<and> (pvp_isValid ops pvp \<longrightarrow>
        setPixelViewport ops w pvp =
          w\<lparr>w_pvp := pvp,
            w_vp := (case w_pipe w of
                       None \<Rightarrow> vp_invalidate ops (w_vp w)
                     | Some p \<Rightarrow>
                         if pvp_isValid ops (pipe_pvp p)
                         then pvp_div ops pvp (pipe_pvp p)
                         else vp_invalidate ops (w_vp w))\<rparr>)
   \<and> (\<not> vp_isValid ops vp \<longrightarrow> setViewport ops w vp = w)
   \<and> (vp_isValid ops vp \<longrightarrow>
        setViewport ops w vp =
          w\<lparr>w_vp := vp,
            w_pvp := (case w_pipe w of
                        None \<Rightarrow> pvp_invalidate ops (w_pvp w)
                      | Some p \<Rightarrow>
                          if pvp_isValid ops (pipe_pvp p)
                          then pvp_mul ops ((pipe_pvp p)\<lparr>pvp_x := 0, pvp_y := 0\<rparr>) vp
                          else pvp_invalidate ops (w_pvp w))\<rparr>)"
  by (simp add: setPixelViewport_def setViewport_def Let_def split: option.splits)

theorem Window_set_viewports_witness:
  "\<not> pvp_isValid example_ops \<lparr>pvp_x = 0, pvp_y = 0, pvp_w = -1, pvp_h = 5\<rparr>
   \<and> setPixelViewport example_ops example_window
         \<lparr>pvp_x = 0, pvp_y = 0, pvp_w = -1, pvp_h = 5\<rparr> = example_window
   \<and> pvp_isValid example_ops \<lparr>pvp_x = 10, pvp_y = 20, pvp_w = 500, pvp_h = 250\<rparr>
   \<and> setPixelViewport example_ops example_window
         \<lparr>pvp_x = 10, pvp_y = 20, pvp_w = 500, pvp_h = 250\<rparr> =
       example_window
         \<lparr>w_pvp := \<lparr>pvp_x = 10, pvp_y = 20, pvp_w = 500, pvp_h = 250\<rparr>,
          w_vp := \<lparr>vp_x = 0, vp_y = 0, vp_w = 1/2, vp_h = 1/2\<rparr>\<rparr>
   \<and> \<not> vp_isValid example_ops \<lparr>vp_x = 0, vp_y = 0, vp_w = -1, vp_h = 1\<rparr>
   \<and> setViewport example_ops example_window
         \<lparr>vp_x = 0, vp_y = 0, vp_w = -1, vp_h = 1\<rparr> = example_window
   \<and> vp_isValid example_ops \<lparr>vp_x = 1/2, vp_y = 0, vp_w = 1/2, vp_h = 1\<rparr>
   \<and> setViewport example_ops example_window
         \<lparr>vp_x = 1/2, vp_y = 0, vp_w = 1/2, vp_h = 1\<rparr> =
       example_window
         \<lparr>w_vp := \<lparr>vp_x = 1/2, vp_y = 0, vp_w = 1/2, vp_h = 1\<rparr>,
          w_pvp := \<lparr>pvp_x = 500, pvp_y = 0, pvp_w = 500, pvp_h = 500\<rparr>\<rparr>"
  using
    Window_set_viewports [of example_ops
      "\<lparr>pvp_x = 0, pvp_y = 0, pvp_w = -1, pvp_h = 5\<rparr>" example_window
      "\<lparr>vp_x = 0, vp_y = 0, vp_w = -1, vp_h = 1\<rparr>"]
    Window_set_viewports [of example_ops
      "\<lparr>pvp_x = 10, pvp_y = 20, pvp_w = 500, pvp_h = 250\<rparr>" example_window
      "\<lparr>vp_x = 1/2, vp_y = 0, vp_w = 1/2, vp_h = 1\<rparr>"]
  by (simp add: example_ops_def example_window_def)

subsection \<open>Swap barriers\<close>

lemma joinSwapBarrier_height:
  "b_height (fst (joinSwapBarrier bs b ws) b) = b_height (bs b) + length ws"
  by (induction ws arbitrary: bs)
     (simp_all add: addSwapBarrier_def increase_def split_beta Let_def)

lemma joinSwapBarrier_windows:
  "snd (joinSwapBarrier bs b ws) =
     map (\<lambda>x. x\<lparr>w_swapBarriers := w_swapBarriers x @ [b]\<rparr>) ws"
  by (induction ws arbitrary: bs)
     (simp_all add: addSwapBarrier_def split_beta Let_def)

text \<open>
  C3. addSwapBarrier adds exactly one to the barrier's participant count and appends
  the barrier to the window's swap-barrier list, changing nothing else of the window.
  newSwapBarrier appends the barrier it got from the node to the master list and to the
  swap-barrier list of the creating window, and the barrier then has count 1. A barrier
  created by one window of a swap group and added by every other window of the group
  has a count equal to the number of windows, and is the last swap barrier of each.
\<close>

theorem swap_barrier_participant_count:
  "(case addSwapBarrier bs w b of
      (bs', w') \<Rightarrow>
        b_height (bs' b) = b_height (bs b) + 1
        \<and> w' = w\<lparr>w_swapBarriers := w_swapBarriers w @ [b]\<rparr>)
   \<and> (case newSwapBarrier nd w of
        (b', nd', w') \<Rightarrow>
          w' = w\<lparr>w_masterSwapBarriers := w_masterSwapBarriers w @ [b'],
                 w_swapBarriers := w_swapBarriers w @ [b']\<rparr>
          \<and> b_height (sn_barriers nd' b') = 1)
   \<and> (case swapGroup nd w ws of
        (b', nd', ws') \<Rightarrow>
          b_height (sn_barriers nd' b') = length (w # ws)
          \<and> map w_swapBarriers ws' = map (\<lambda>x. w_swapBarriers x @ [b']) (w # ws)
          \<and> map w_masterSwapBarriers ws' =
              (w_masterSwapBarriers w @ [b']) # map w_masterSwapBarriers ws)"
  by (simp add: addSwapBarrier_def newSwapBarrier_def swapGroup_def getBarrier_def
        increase_def split_beta Let_def joinSwapBarrier_height joinSwapBarrier_windows
        comp_def)

subsection \<open>Frame update\<close>

lemma sent_append: "sent (xs @ ys) = sent xs @ sent ys"
  by (induction xs rule: sent.induct) simp_all

lemma committed_append: "committed (xs @ ys) = committed xs @ committed ys"
  by (induction xs rule: committed.induct) simp_all

lemma sent_commits: "sent (map BarrierCommit as) = []"
  by (induction as) simp_all

lemma committed_commits: "committed (map BarrierCommit as) = as"
  by (induction as) simp_all

lemma sent_sends: "sent (map (\<lambda>a. Send (f a)) as) = map f as"
  by (induction as) simp_all

lemma committed_sends: "committed (map (\<lambda>a. Send (f a)) as) = []"
  by (induction as) simp_all

lemma sent_update_channels: "sent (snd (update_channels cupdate frameID cs)) = []"
  by (induction cs) (simp_all add: split_beta Let_def)

lemma committed_update_channels: "committed (snd (update_channels cupdate frameID cs)) = []"
  by (induction cs) (simp_all add: split_beta Let_def)

lemma filter_barrier_packets:
  "filter isBarrierPacket (map (\<lambda>a. WindowBarrierPacket (f a) (g a)) as) =
     map (\<lambda>a. WindowBarrierPacket (f a) (g a)) as"
  by (induction as) simp_all

text \<open>
  C2. Every update of a window with a pipe returns, and its events end with the swap
  packet followed by the end-frame packet. Before the swap packet, and nowhere else,
  every master swap barrier is committed, in order, and one barrier packet is sent for
  each swap barrier, carrying the id and the version the barrier has after the commits.
  A window whose swap-barrier list is empty sends, in \<open>_updateSwap\<close>, the swap packet
  only, so that its update sends the start-frame, swap and end-frame packets and
  neither a finish nor a barrier packet.
\<close>

theorem Window_update_barriers_before_swap:
  "(update commit cupdate bs w frameID = Some (bs', w', tr) \<longrightarrow>
     (\<exists>pre. tr = pre @ [Send WindowSwapPacket, Send (WindowEndFramePacket frameID)]
        \<and> WindowSwapPacket \<notin> set (sent pre)
        \<and> committed pre = w_masterSwapBarriers w
        \<and> filter isBarrierPacket (sent pre) =
            map (\<lambda>a. WindowBarrierPacket (b_id (bs' a)) (b_version (bs' a)))
                (w_swapBarriers w))
     \<and> bs' = commitBarriers commit (w_masterSwapBarriers w) bs
     \<and> (w_swapBarriers w = [] \<longrightarrow>
          sent tr =
            [WindowStartFramePacket frameID (1 < pipe_nWindows (the (w_pipe w))),
             WindowSwapPacket, WindowEndFramePacket frameID]))
   \<and> (w_swapBarriers w = [] \<longrightarrow> sent (snd (updateSwap commit bs w)) = [WindowSwapPacket])
   \<and> ((\<exists>res. update commit cupdate bs w frameID = Some res) \<longleftrightarrow> w_pipe w \<noteq> None)"
proof (intro conjI impI)
  assume u: "update commit cupdate bs w frameID = Some (bs', w', tr)"
  then obtain p where Some: "w_pipe w = Some p"
    by (cases "w_pipe w") (simp_all add: update_def)
  define ev1 where "ev1 = snd (update_channels cupdate frameID (w_channels w))"
  define pre where
    "pre = [Send (WindowStartFramePacket frameID (1 < pipe_nWindows p))] @ ev1
           @ map BarrierCommit (w_masterSwapBarriers w)
           @ (if w_swapBarriers w \<noteq> [] then [Send WindowFinishPacket] else [])
           @ map (\<lambda>a. Send (WindowBarrierPacket (b_id (bs' a)) (b_version (bs' a))))
                 (w_swapBarriers w)"
  from u Some show bs': "bs' = commitBarriers commit (w_masterSwapBarriers w) bs"
    by (simp add: update_def updateSwap_def split_beta Let_def)
  from u Some have tr: "tr = pre @ [Send WindowSwapPacket, Send (WindowEndFramePacket frameID)]"
    by (auto simp add: update_def updateSwap_def split_beta Let_def pre_def ev1_def)
  have s: "sent pre =
             WindowStartFramePacket frameID (1 < pipe_nWindows p)
             # (if w_swapBarriers w \<noteq> [] then [WindowFinishPacket] else [])
             @ map (\<lambda>a. WindowBarrierPacket (b_id (bs' a)) (b_version (bs' a)))
                   (w_swapBarriers w)"
    by (simp add: pre_def ev1_def sent_append sent_commits sent_sends sent_update_channels)
  have c: "committed pre = w_masterSwapBarriers w"
    by (simp add: pre_def ev1_def committed_append committed_commits committed_sends
          committed_update_channels)
  have n: "WindowSwapPacket \<notin> set (sent pre)"
    by (auto simp add: s)
  have f: "filter isBarrierPacket (sent pre) =
             map (\<lambda>a. WindowBarrierPacket (b_id (bs' a)) (b_version (bs' a)))
                 (w_swapBarriers w)"
    by (simp add: s filter_barrier_packets)
  from tr n c f
  show "\<exists>pre. tr = pre @ [Send WindowSwapPacket, Send (WindowEndFramePacket frameID)]
        \<and> WindowSwapPacket \<notin> set (sent pre)
        \<and> committed pre = w_masterSwapBarriers w
        \<and> filter isBarrierPacket (sent pre) =
            map (\<lambda>a. WindowBarrierPacket (b_id (bs' a)) (b_version (bs' a)))
                (w_swapBarriers w)"
    by blast
  assume "w_swapBarriers w = []"
  then show "sent tr = [WindowStartFramePacket frameID (1 < pipe_nWindows (the (w_pipe w))),
                        WindowSwapPacket, WindowEndFramePacket frameID]"
    by (simp add: tr sent_append s Some)
next
  assume "w_swapBarriers w = []"
  then show "sent (snd (updateSwap commit bs w)) = [WindowSwapPacket]"
    by (simp add: updateSwap_def Let_def sent_append sent_commits)
next
  show "(\<exists>res. update commit cupdate bs w frameID = Some res) \<longleftrightarrow> w_pipe w \<noteq> None"
    by (cases "w_pipe w") (simp_all add: update_def split_beta Let_def)
qed

theorem Window_update_barriers_before_swap_witness:
  "update example_commit (\<lambda>f c. c) example_barriers example_swap_window 3 \<noteq> None
   \<and> snd (snd (the (update example_commit (\<lambda>f c. c) example_barriers example_swap_window 3))) =
       [Send (WindowStartFramePacket 3 True), ChannelUpdate 1 3, BarrierCommit 0,
        Send WindowFinishPacket, Send (WindowBarrierPacket 5 1),
        Send (WindowBarrierPacket 5 0), Send WindowSwapPacket,
        Send (WindowEndFramePacket 3)]
   \<and> w_swapBarriers example_window = []
   \<and> sent (snd (snd (the (update example_commit (\<lambda>f c. c) example_barriers example_window 3)))) =
       [WindowStartFramePacket 3 True, WindowSwapPacket, WindowEndFramePacket 3]"
  using
    Window_update_barriers_before_swap [where
      commit = example_commit and cupdate = "\<lambda>f c. c" and bs = example_barriers
      and w = example_swap_window and frameID = 3
      and bs' = "fst (the (update example_commit (\<lambda>f c. c) example_barriers example_swap_window 3))"
      and w' = "fst (snd (the (update example_commit (\<lambda>f c. c) example_barriers example_swap_window 3)))"
      and tr = "snd (snd (the (update example_commit (\<lambda>f c. c) example_barriers example_swap_window 3)))"]
    Window_update_barriers_before_swap [where
      commit = example_commit and cupdate = "\<lambda>f c. c" and bs = example_barriers
      and w = example_window and frameID = 3
      and bs' = "fst (the (update example_commit (\<lambda>f c. c) example_barriers example_window 3))"
      and w' = "fst (snd (the (update example_commit (\<lambda>f c. c) example_barriers example_window 3)))"
      and tr = "snd (snd (the (update example_commit (\<lambda>f c. c) example_barriers example_window 3)))"]
  by (simp add: update_def updateSwap_def commitBarriers_def example_swap_window_def
        example_window_def example_barriers_def example_commit_def isUsed_def Let_def)

subsection \<open>Init and exit\<close>

lemma syncInit_channels_eq:
  "syncInit_channels f cs s =
     (if \<forall>c\<in>set cs. isUsed c \<longrightarrow> f c \<noteq> None
      then Some (s \<and> (\<forall>c\<in>set cs. isUsed c \<longrightarrow> fst (the (f c))),
                 map (\<lambda>c. if isUsed c then snd (the (f c)) else c) cs)
      else None)"
proof (induction cs arbitrary: s)
  case Nil
  show ?case by simp
next
  case (Cons c cs)
  show ?case
  proof (cases "isUsed c")
    case False
    then show ?thesis by (simp add: Cons.IH)
  next
    case True
    show ?thesis
    proof (cases "f c")
      case None
      with True show ?thesis by simp
    next
      case (Some rc)
      with True show ?thesis
        by (cases rc) (auto simp add: Cons.IH)
    qed
  qed
qed

lemma syncExit_channels_eq:
  "syncExit_channels f d cs s =
     (if \<forall>c\<in>set cs. c_state c = Channel_STATE_STOPPING \<longrightarrow> f c \<noteq> None
      then Some (s \<and> (\<forall>c\<in>set cs. c_state c = Channel_STATE_STOPPING \<longrightarrow> fst (the (f c))),
                 map (\<lambda>c. if c_state c = Channel_STATE_STOPPING then d (snd (the (f c))) else c) cs,
                 concat (map (\<lambda>c. if c_state c = Channel_STATE_STOPPING
                     then [Send (WindowDestroyChannelPacket (c_id (snd (the (f c))))),
                           DeregisterObject (c_id (snd (the (f c))))]
                     else []) cs))
      else None)"
proof (induction cs arbitrary: s)
  case Nil
  show ?case by simp
next
  case (Cons c cs)
  show ?case
  proof (cases "c_state c = Channel_STATE_STOPPING")
    case False
    then show ?thesis by (simp add: Cons.IH)
  next
    case True
    show ?thesis
    proof (cases "f c")
      case None
      with True show ?thesis by simp
    next
      case (Some rc)
      with True show ?thesis
        by (cases rc) (auto simp add: Cons.IH)
    qed
  qed
qed


lemma returned_true_iff:
  "f c \<noteq> None \<Longrightarrow> fst (the (f c)) \<longleftrightarrow> (\<exists>c'. f c = Some (True, c'))"
  by (cases "f c") auto

lemma waitRequest_unserved:
  "w_pendingRequestID w = Some rid \<Longrightarrow> \<not> (\<exists>v. servedWith w v) \<Longrightarrow>
     waitRequest (w_requestHandler w) rid = None"
  by (auto simp add: waitRequest_def servedWith_def split: option.splits)

text \<open>
  C1. When syncInit returns, it returns true exactly when every used channel's syncInit
  returned true and the window's pending request was served with a value that is not
  zero; the state is then STATE_RUNNING, and as it was before the call otherwise.
  syncInit returns when every used channel's syncInit returns and the pending request
  is served. When syncExit returns, it returns true exactly when every stopping
  channel's syncExit returned true and the pending request was served with a value that
  is not zero, so a failed channel or a failed request makes it return false; the state
  is then STATE_STOPPED.
\<close>

theorem Window_sync_fails_with_child:
  "(syncInit csyncInit w = Some (r, w') \<longrightarrow>
      (r \<longleftrightarrow> (\<forall>c\<in>set (w_channels w). isUsed c \<longrightarrow> (\<exists>c'. csyncInit c = Some (True, c')))
             \<and> (\<exists>v. servedWith w v \<and> v \<noteq> 0))
      \<and> w_state w' = (if r then Window_STATE_RUNNING else w_state w))
   \<and> ((\<exists>res. syncInit csyncInit w = Some res) \<longleftrightarrow>
        (\<forall>c\<in>set (w_channels w). isUsed c \<longrightarrow> csyncInit c \<noteq> None) \<and> (\<exists>v. servedWith w v))
   \<and> (syncExit csyncExit dereg w = Some (re, we, evs) \<longrightarrow>
      (re \<longleftrightarrow> (\<forall>c\<in>set (w_channels w). c_state c = Channel_STATE_STOPPING
                    \<longrightarrow> (\<exists>c'. csyncExit c = Some (True, c')))
              \<and> (\<exists>v. servedWith w v \<and> v \<noteq> 0))
      \<and> w_state we = Window_STATE_STOPPED)
   \<and> ((\<exists>res. syncExit csyncExit dereg w = Some res) \<longleftrightarrow>
        (\<forall>c\<in>set (w_channels w). c_state c = Channel_STATE_STOPPING \<longrightarrow> csyncExit c \<noteq> None)
        \<and> (\<exists>v. servedWith w v))"
proof (cases "w_pendingRequestID w")
  case None
  then show ?thesis
    by (simp add: syncInit_def syncExit_def servedWith_def split: option.split)
next
  case (Some rid)
  show ?thesis
  proof (cases "\<exists>v. servedWith w v")
    case False
    with Some waitRequest_unserved [OF Some False] show ?thesis
      by (simp add: syncInit_def syncExit_def split: option.split)
  next
    case True
    then obtain v where v: "servedWith w v" ..
    with Some have uniq: "\<And>v'. servedWith w v' \<longleftrightarrow> v' = v"
      by (auto simp add: servedWith_def)
    have wr: "waitRequest (w_requestHandler w) rid =
                Some (v, (w_requestHandler w)\<lparr>rh_requests :=
                            (rh_requests (w_requestHandler w))(rid := None)\<rparr>)"
      using v Some by (simp add: waitRequest_def servedWith_def)
    have i1: "syncInit csyncInit w = Some (r, w') \<longrightarrow>
      (r \<longleftrightarrow> (\<forall>c\<in>set (w_channels w). isUsed c \<longrightarrow> (\<exists>c'. csyncInit c = Some (True, c')))
             \<and> (\<exists>v. servedWith w v \<and> v \<noteq> 0))
      \<and> w_state w' = (if r then Window_STATE_RUNNING else w_state w)"
      by (auto simp add: syncInit_def syncInit_channels_eq Some wr uniq Let_def
            returned_true_iff split: if_splits)
    have i2: "(\<exists>res. syncInit csyncInit w = Some res) \<longleftrightarrow>
        (\<forall>c\<in>set (w_channels w). isUsed c \<longrightarrow> csyncInit c \<noteq> None) \<and> (\<exists>v. servedWith w v)"
      using True by (auto simp add: syncInit_def syncInit_channels_eq Some wr Let_def)
    have e1: "syncExit csyncExit dereg w = Some (re, we, evs) \<longrightarrow>
      (re \<longleftrightarrow> (\<forall>c\<in>set (w_channels w). c_state c = Channel_STATE_STOPPING
                    \<longrightarrow> (\<exists>c'. csyncExit c = Some (True, c')))
              \<and> (\<exists>v. servedWith w v \<and> v \<noteq> 0))
      \<and> w_state we = Window_STATE_STOPPED"
      by (auto simp add: syncExit_def syncExit_channels_eq Some wr uniq
            returned_true_iff split: if_splits)
    have e2: "(\<exists>res. syncExit csyncExit dereg w = Some res) \<longleftrightarrow>
        (\<forall>c\<in>set (w_channels w). c_state c = Channel_STATE_STOPPING \<longrightarrow> csyncExit c \<noteq> None)
        \<and> (\<exists>v. servedWith w v)"
      using True by (auto simp add: syncExit_def syncExit_channels_eq Some wr)
    from i1 i2 e1 e2 show ?thesis by blast
  qed
qed

theorem Window_sync_fails_with_child_witness:
  "syncInit (\<lambda>c. Some (True, c\<lparr>c_state := Channel_STATE_RUNNING\<rparr>)) example_initialising \<noteq> None
   \<and> fst (the (syncInit (\<lambda>c. Some (True, c\<lparr>c_state := Channel_STATE_RUNNING\<rparr>))
                 example_initialising))
   \<and> w_state (snd (the (syncInit (\<lambda>c. Some (True, c\<lparr>c_state := Channel_STATE_RUNNING\<rparr>))
                 example_initialising))) = Window_STATE_RUNNING
   \<and> \<not> fst (the (syncExit (\<lambda>c. Some (False, c\<lparr>c_state := Channel_STATE_STOPPED\<rparr>)) id
                 example_stopping))
   \<and> w_state (fst (snd (the (syncExit (\<lambda>c. Some (False, c\<lparr>c_state := Channel_STATE_STOPPED\<rparr>))
                 id example_stopping)))) = Window_STATE_STOPPED"
  using Window_sync_fails_with_child [where
      csyncInit = "\<lambda>c. Some (True, c\<lparr>c_state := Channel_STATE_RUNNING\<rparr>)"
      and w = example_initialising and r = True
      and w' = "snd (the (syncInit (\<lambda>c. Some (True, c\<lparr>c_state := Channel_STATE_RUNNING\<rparr>))
                 example_initialising))"]
    Window_sync_fails_with_child [where
      csyncExit = "\<lambda>c. Some (False, c\<lparr>c_state := Channel_STATE_STOPPED\<rparr>)"
      and dereg = id
      and w = example_stopping and re = False
      and we = "fst (snd (the (syncExit (\<lambda>c. Some (False, c\<lparr>c_state := Channel_STATE_STOPPED\<rparr>))
                 id example_stopping)))"
      and evs = "snd (snd (the (syncExit (\<lambda>c. Some (False, c\<lparr>c_state := Channel_STATE_STOPPED\<rparr>))
                 id example_stopping)))"]
  by (simp add: example_initialising_def example_stopping_def cmdInitReply_def
        cmdExitReply_def sendInit_def sendExit_def registerRequest_def serveRequest_def
        waitRequest_def example_window_def example_ops_def setPixelViewport_def Let_def
        syncInit_def syncExit_def isUsed_def)

section \<open>Properties of the eqPly channel\<close>

subsection \<open>Clearing the frame\<close>

text \<open>
  The claim C7 as it is stated, that a channel which is not the destination of the
  current view is cleared with its unique colour whenever EQ_TAINT_CHANNELS is set, is
  false in a build that defines NDEBUG: there the branch that reads the variable is not
  compiled, and the clear colour is black.
\<close>

theorem frameClear_taint_counterexample:
  "cc_EQ_TAINT_CHANNELS (example_clear\<lparr>cc_NDEBUG := True\<rparr>) = Some ''1''
   \<and> cc_view (example_clear\<lparr>cc_NDEBUG := True\<rparr>) = Some 3
   \<and> cc_currentViewID (example_clear\<lparr>cc_NDEBUG := True\<rparr>) = 4
   \<and> cc_uniqueColor (example_clear\<lparr>cc_NDEBUG := True\<rparr>) =
       \<lparr>col_r = 255, col_g = 0, col_b = 51\<rparr>
   \<and> frameClear (example_clear\<lparr>cc_NDEBUG := True\<rparr>) =
       \<lparr>red = 0, green = 0, blue = 0, alpha = 1\<rparr>
   \<and> frameClear (example_clear\<lparr>cc_NDEBUG := True\<rparr>) \<noteq>
       \<lparr>red = 255 / 255, green = 0 / 255, blue = 51 / 255, alpha = 1\<rparr>"
  by (simp add: frameClear_def example_clear_def)

text \<open>
  C7, amended. The destination channel of the current view is cleared grey, whatever
  the build and the environment. Any other channel is cleared with its unique colour
  when the build does not define NDEBUG and EQ_TAINT_CHANNELS is set, and is cleared
  black when the build defines NDEBUG or the variable is not set.
\<close>

theorem frameClear_colour:
  "((case cc_view cc of None \<Rightarrow> False | Some vid \<Rightarrow> cc_currentViewID cc = vid)
      \<longrightarrow> frameClear cc = \<lparr>red = 4/10, green = 4/10, blue = 4/10, alpha = 1\<rparr>)
   \<and> (\<not> (case cc_view cc of None \<Rightarrow> False | Some vid \<Rightarrow> cc_currentViewID cc = vid)
       \<and> \<not> cc_NDEBUG cc \<and> cc_EQ_TAINT_CHANNELS cc \<noteq> None
      \<longrightarrow> frameClear cc =
            \<lparr>red = real (unat (col_r (cc_uniqueColor cc))) / 255,
             green = real (unat (col_g (cc_uniqueColor cc))) / 255,
             blue = real (unat (col_b (cc_uniqueColor cc))) / 255,
             alpha = 1\<rparr>)
   \<and> (\<not> (case cc_view cc of None \<Rightarrow> False | Some vid \<Rightarrow> cc_currentViewID cc = vid)
       \<and> (cc_NDEBUG cc \<or> cc_EQ_TAINT_CHANNELS cc = None)
      \<longrightarrow> frameClear cc = \<lparr>red = 0, green = 0, blue = 0, alpha = 1\<rparr>)"
  by (auto simp add: frameClear_def Let_def)

theorem frameClear_colour_witness:
  "frameClear (example_clear\<lparr>cc_currentViewID := 3\<rparr>) =
     \<lparr>red = 4/10, green = 4/10, blue = 4/10, alpha = 1\<rparr>
   \<and> frameClear example_clear = \<lparr>red = 1, green = 0, blue = 1/5, alpha = 1\<rparr>
   \<and> frameClear (example_clear\<lparr>cc_NDEBUG := True\<rparr>) =
       \<lparr>red = 0, green = 0, blue = 0, alpha = 1\<rparr>
   \<and> frameClear (example_clear\<lparr>cc_EQ_TAINT_CHANNELS := None\<rparr>) =
       \<lparr>red = 0, green = 0, blue = 0, alpha = 1\<rparr>"
  using frameClear_colour [of "example_clear\<lparr>cc_currentViewID := 3\<rparr>"]
    frameClear_colour [of example_clear]
    frameClear_colour [of "example_clear\<lparr>cc_NDEBUG := True\<rparr>"]
    frameClear_colour [of "example_clear\<lparr>cc_EQ_TAINT_CHANNELS := None\<rparr>"]
  by (simp add: example_clear_def)

subsection \<open>Drawing the model\<close>

lemma treeNodes_children:
  "set (treeNodes n) =
     insert n ((case getLeft n of None \<Rightarrow> {} | Some x \<Rightarrow> set (treeNodes x))
               \<union> (case getRight n of None \<Rightarrow> {} | Some x \<Rightarrow> set (treeNodes x)))"
  by (cases n) (auto split: option.splits)

lemma treeNodes_pushChildren:
  "(\<Union>c \<in> set (pushChildren n cs). set (treeNodes c)) \<subseteq>
     set (treeNodes n) \<union> (\<Union>c \<in> set cs. set (treeNodes c))"
  by (cases n) (auto simp add: pushChildren_def split: option.splits)

lemma drawVisible_pushChildren:
  "\<not> (getLeft n = None \<and> getRight n = None) \<Longrightarrow>
   testSphere (getBoundingSphere n) = VISIBILITY_PARTIAL \<Longrightarrow>
     concat (map (drawVisible testSphere) (pushChildren n cs)) =
       drawVisible testSphere n @ concat (map (drawVisible testSphere) cs)"
  by (cases n) (auto simp add: pushChildren_def split: option.splits)

lemma drawVisible_leaf:
  "getLeft n = None \<Longrightarrow> getRight n = None \<Longrightarrow>
     drawVisible testSphere n =
       (if testSphere (getBoundingSphere n) = VISIBILITY_NONE then [] else [n])"
  by (cases n) (auto split: visibility.splits)

lemma drawVisible_full:
  "testSphere (getBoundingSphere n) = VISIBILITY_FULL \<Longrightarrow> drawVisible testSphere n = [n]"
  by (cases n) auto

lemma drawVisible_none:
  "testSphere (getBoundingSphere n) = VISIBILITY_NONE \<Longrightarrow> drawVisible testSphere n = []"
  by (cases n) auto

lemma unitRange_not_outOfRange: "unitRange n \<Longrightarrow> \<not> outOfRange Range_ALL n"
  by (simp add: unitRange_def outOfRange_def Range_ALL_def)

lemma drawLoop_ALL:
  "rng = Range_ALL \<Longrightarrow> \<forall>c\<in>set cands. \<forall>n\<in>set (treeNodes c). unitRange n \<Longrightarrow>
     drawLoop testSphere rng cands = concat (map (drawVisible testSphere) cands)"
proof (induction testSphere rng cands rule: drawLoop.induct)
  case (1 testSphere rng)
  show ?case by simp
next
  case (2 testSphere rng treeNode candidates)
  have root: "unitRange treeNode"
    using "2.prems"(2) by (simp add: treeNodes_children)
  then have inr: "\<not> outOfRange rng treeNode"
    using "2.prems"(1) by (simp add: unitRange_not_outOfRange)
  have rest: "\<forall>c\<in>set candidates. \<forall>n\<in>set (treeNodes c). unitRange n"
    using "2.prems"(2) by simp
  have push: "\<forall>c\<in>set (pushChildren treeNode candidates). \<forall>n\<in>set (treeNodes c). unitRange n"
    using treeNodes_pushChildren [of treeNode candidates] "2.prems"(2) by auto
  have start: "range_start rng \<le> getRange0 treeNode"
    using root "2.prems"(1) by (simp add: unitRange_def Range_ALL_def)
  show ?case
  proof (cases "testSphere (getBoundingSphere treeNode)")
    case VISIBILITY_NONE
    with inr "2.IH" "2.prems"(1) rest show ?thesis
      by (simp add: drawVisible_none)
  next
    case VISIBILITY_FULL
    with inr "2.IH" "2.prems"(1) rest show ?thesis
      by (simp add: drawVisible_full)
  next
    case VISIBILITY_PARTIAL
    show ?thesis
    proof (cases "getLeft treeNode = None \<and> getRight treeNode = None")
      case True
      with inr VISIBILITY_PARTIAL start "2.IH" "2.prems"(1) rest
      show ?thesis by (simp add: drawVisible_leaf)
    next
      case False
      have step: "drawLoop testSphere rng (treeNode # candidates) =
                    drawLoop testSphere rng (pushChildren treeNode candidates)"
        using inr VISIBILITY_PARTIAL False by auto
      have "drawLoop testSphere rng (pushChildren treeNode candidates) =
              concat (map (drawVisible testSphere) (pushChildren treeNode candidates))"
        using "2.IH"(5) inr VISIBILITY_PARTIAL False "2.prems"(1) push by blast
      with step drawVisible_pushChildren [of treeNode testSphere candidates]
        False VISIBILITY_PARTIAL
      show ?thesis by simp
    qed
  qed
qed

lemma drawLoop_empty_range:
  "range_start rng = range_end rng \<Longrightarrow> drawLoop testSphere rng cands = []"
proof (induction testSphere rng cands rule: drawLoop.induct)
  case (1 testSphere rng)
  show ?case by simp
next
  case (2 testSphere rng treeNode candidates)
  have ne: "rng \<noteq> Range_ALL"
    using "2.prems" by (auto simp add: Range_ALL_def)
  show ?case
  proof (cases "outOfRange rng treeNode")
    case True
    with "2.IH"(1) "2.prems" show ?thesis by simp
  next
    case False
    then have lo: "\<not> range_start rng \<le> getRange0 treeNode"
      using "2.prems" by (simp add: outOfRange_def)
    show ?thesis
      using False lo ne "2.IH" "2.prems"
      by (cases "testSphere (getBoundingSphere treeNode)") auto
  qed
qed

text \<open>
  The claim C6 as it is stated, that with the channel range [0,1) no tree node is
  excluded by the range test, is false for a node whose range starts at 1: the leaf
  with the range from 1 to 2 is fully visible, fails the test against the end of the
  channel range and is not rendered.
\<close>

theorem drawModel_range_counterexample:
  "example_culler (getBoundingSphere example_outside_leaf) = VISIBILITY_FULL
   \<and> outOfRange Range_ALL example_outside_leaf
   \<and> drawModel example_culler Range_ALL example_outside_leaf = []"
  by (simp add: example_outside_leaf_def example_culler_def outOfRange_def Range_ALL_def
        drawModel_def)

text \<open>
  C6, amended. With the channel range [0,1) the range test excludes a tree node exactly
  when the node's range starts at or above 1 or ends below 0, and the loop then passes
  over the node without rendering it. For a model in which the range of every node
  starts in [0,1) and does not end before it starts, the nodes rendered are those the
  frustum culler alone selects. When the channel range is empty, [a,a) for any a, no
  node is rendered, whatever the model and the culler.
\<close>

theorem drawModel_range_boundaries:
  "(outOfRange Range_ALL treeNode \<longleftrightarrow> 1 \<le> getRange0 treeNode \<or> getRange1 treeNode < 0)
   \<and> (outOfRange Range_ALL treeNode \<longrightarrow>
        drawLoop testSphere Range_ALL (treeNode # candidates) =
          drawLoop testSphere Range_ALL candidates)
   \<and> ((\<forall>n\<in>set (treeNodes model). unitRange n) \<longrightarrow>
        drawModel testSphere Range_ALL model = drawVisible testSphere model)
   \<and> drawModel testSphere \<lparr>range_start = a, range_end = a\<rparr> model = []"
  using drawLoop_ALL [of Range_ALL "[model]" testSphere]
    drawLoop_empty_range [of "\<lparr>range_start = a, range_end = a\<rparr>" testSphere "[model]"]
  by (simp add: drawModel_def outOfRange_def Range_ALL_def)

theorem drawModel_range_boundaries_witness:
  "outOfRange Range_ALL example_outside_leaf
   \<and> drawLoop example_culler Range_ALL [example_outside_leaf, example_model] =
       drawLoop example_culler Range_ALL [example_model]
   \<and> treeNodes example_model =
       [example_model, VertexBufferBase 0 (1/2) 1 None None,
        VertexBufferBase (1/2) 1 2 None None]
   \<and> unitRange example_model
   \<and> unitRange (VertexBufferBase 0 (1/2) (1::nat) None None)
   \<and> unitRange (VertexBufferBase (1/2) 1 (2::nat) None None)
   \<and> drawModel example_culler Range_ALL example_model =
       [VertexBufferBase (1/2) 1 2 None None, VertexBufferBase 0 (1/2) 1 None None]
   \<and> drawModel example_culler \<lparr>range_start = 1/2, range_end = 1/2\<rparr> example_model = []"
  using drawModel_range_boundaries [where treeNode = example_outside_leaf
      and testSphere = example_culler and candidates = "[example_model]"
      and model = example_model and a = "1/2"]
  by (simp add: example_model_def example_culler_def example_outside_leaf_def
        unitRange_def outOfRange_def Range_ALL_def)

end
